theory Spec2Isabelle
  imports Complex_Main "HOL-Library.Word" "HOL-Library.Sublist"
begin

section \<open>Strings and arrays of the JavaScript sources\<close>

text \<open>
  A JavaScript string is a \<^typ>\<open>string\<close>: one \<^typ>\<open>char\<close> per UTF-16 code unit below 256,
  which covers every literal of the sources (their French accents are Latin-1 and are
  written \<open>CHR 0xE9\<close> and the like). The double quote is \<open>CHR 0x22\<close>, the line feed
  \<open>CHR 0x0A\<close>.
\<close>

text \<open>\<open>Array.prototype.join\<close>: the elements with the separator between neighbours.\<close>

fun js_join :: "string \<Rightarrow> string list \<Rightarrow> string" where
  "js_join sep [] = []"
| "js_join sep [x] = x"
| "js_join sep (x # y # ys) = x @ sep @ js_join sep (y # ys)"

text \<open>\<open>s.replace(/c/g, r)\<close> for a single character \<open>c\<close>: every occurrence is replaced.\<close>

definition replace_all :: "char \<Rightarrow> string \<Rightarrow> string \<Rightarrow> string" where
  "replace_all c r s = concat (map (\<lambda>x. if x = c then r else [x]) s)"

text \<open>The decimal digits of a number, as template literals and \<open>+\<close> print it.\<close>

fun decimal :: "nat \<Rightarrow> string" where
  "decimal n =
     (if n < 10 then [char_of (48 + n)]
      else decimal (n div 10) @ [char_of (48 + n mod 10)])"

declare decimal.simps [simp del]

section \<open>The convert-pdf endpoint (\<open>floating-notification/app/api/convert-pdf/route.ts\<close>)\<close>

record posted_file =
  posted_name :: string
  posted_type :: string
  posted_bytes :: "8 word list"

text \<open>
  An entry of the multipart form is a file or a plain string; \<open>formData.get\<close> returns the
  first entry of a name, or null.
\<close>

datatype form_entry = FileEntry posted_file | TextEntry string

type_synonym form_data = "(string \<times> form_entry) list"

definition form_get :: "form_data \<Rightarrow> string \<Rightarrow> form_entry option" where
  "form_get fd k = map_of fd k"

text \<open>
  What the handler reads and changes on the server: the working directory, the existing
  directories and files, the clock (\<open>Date.now()\<close>), the pending \<open>setTimeout\<close> clean-ups
  (delay and path), and which awaited operation, if any, rejects during this request.
\<close>

datatype io_fault = NoFault | MkdirFails | ReadFails | WriteFails

record server =
  cwd :: string
  dirs :: "string list"
  stored :: "(string \<times> 8 word list) list"
  clock :: nat
  timers :: "(nat \<times> string) list"
  fault :: io_fault

datatype body =
    ErrorBody string
  | ConversionBody string "string list" string

record response =
  status :: nat
  body :: body

definition json_response :: "body \<Rightarrow> nat \<Rightarrow> response" where
  "json_response b st = \<lparr>status = st, body = b\<rparr>"

definition path_join :: "string list \<Rightarrow> string" where
  "path_join segs = js_join ''/'' segs"

definition write_file ::
  "string \<Rightarrow> 8 word list \<Rightarrow> (string \<times> 8 word list) list \<Rightarrow> (string \<times> 8 word list) list" where
  "write_file p b fs = (p, b) # filter (\<lambda>e. fst e \<noteq> p) fs"

text \<open>The character class \<open>[a-zA-Z0-9.-]\<close> of the file-name clean-up.\<close>

definition name_char_ok :: "char \<Rightarrow> bool" where
  "name_char_ok c =
     (let n = (of_char c :: nat) in
        (97 \<le> n \<and> n \<le> 122) \<or> (65 \<le> n \<and> n \<le> 90) \<or> (48 \<le> n \<and> n \<le> 57)
        \<or> c = CHR ''.'' \<or> c = CHR ''-'')"

definition sanitize_name :: "string \<Rightarrow> string" where
  "sanitize_name s = map (\<lambda>c. if name_char_ok c then c else CHR ''_'') s"

definition mockImages :: "string list" where
  "mockImages =
     [''/placeholder.svg?height=400&width=300&text=Page 1'',
      ''/placeholder.svg?height=400&width=300&text=Page 2'',
      ''/placeholder.svg?height=400&width=300&text=Page 3'']"

definition no_file_response :: response where
  "no_file_response = json_response (ErrorBody ''Aucun fichier fourni'') 400"

definition not_pdf_response :: response where
  "not_pdf_response =
     json_response (ErrorBody (''Le fichier doit '' @ [CHR 0xEA] @ ''tre un PDF'')) 400"

definition conversion_error_response :: response where
  "conversion_error_response = json_response (ErrorBody ''Erreur lors de la conversion'') 500"

definition conversion_response :: "posted_file \<Rightarrow> nat \<Rightarrow> response" where
  "conversion_response file timestamp =
     json_response
       (ConversionBody (posted_name file) mockImages
          (''/api/download-images?id='' @ decimal timestamp))
       200"

text \<open>
  \<open>POST\<close>: the request is its parsed form data, \<open>None\<close> when \<open>request.formData()\<close> rejects.
  Every rejection inside the \<open>try\<close> ends in the \<open>catch\<close>, which answers 500. A string
  entry has no \<open>type\<close> property, so it fails the MIME check unless it is empty, in which
  case it already fails \<open>!file\<close>.
\<close>

definition POST :: "server \<Rightarrow> form_data option \<Rightarrow> response \<times> server" where
  "POST s request =
     (case request of
        None \<Rightarrow> (conversion_error_response, s)
      | Some formData \<Rightarrow>
          (case form_get formData ''pdf'' of
             None \<Rightarrow> (no_file_response, s)
           | Some (TextEntry v) \<Rightarrow>
               if v = [] then (no_file_response, s) else (not_pdf_response, s)
           | Some (FileEntry file) \<Rightarrow>
               if posted_type file \<noteq> ''application/pdf'' then (not_pdf_response, s)
               else
                 let uploadsDir = path_join [cwd s, ''public'', ''uploads''] in
                 if uploadsDir \<notin> set (dirs s) \<and> fault s = MkdirFails
                 then (conversion_error_response, s)
                 else
                   let s1 = (if uploadsDir \<in> set (dirs s) then s
                             else s\<lparr>dirs := dirs s @ [uploadsDir]\<rparr>);
                       timestamp = clock s;
                       filename = decimal timestamp @ ''-'' @ sanitize_name (posted_name file);
                       filepath = path_join [uploadsDir, filename]
                   in
                   if fault s = ReadFails \<or> fault s = WriteFails
                   then (conversion_error_response, s1)
                   else
                     (conversion_response file timestamp,
                      s1\<lparr>stored := write_file filepath (posted_bytes file) (stored s1),
                         timers := timers s1 @ [(60000, filepath)]\<rparr>)))"


section \<open>The upload form (\<open>pci-extractor-web/src/components/pdf-upload-form/index.tsx\<close>)\<close>

text \<open>
  The same \<open>handleFiles\<close> stands, up to the quote characters, in the page component of the
  extractor; one model serves both.
\<close>

record browser_file =
  file_name :: string
  file_type :: string
  file_size :: nat

datatype ui_state = Idle | Uploading | Processing | Success | Error

text \<open>What a \<open>throw\<close> or a rejected promise carries: an \<open>Error\<close> with its message, or another value.\<close>

datatype thrown = ErrorObject string | OtherValue

text \<open>
  The JSON body of the extraction API, as far as the form reads it: \<open>error\<close>,
  \<open>requirements\<close> (\<open>None\<close> when absent or null) and \<open>summary\<close> (passed on unread). The
  entries of \<open>requirements\<close> are \<open>Record<string, unknown>\<close> to the form, hence a type variable.
\<close>

record ('r, 's) payload =
  error_field :: "string option"
  requirements_field :: "'r list option"
  summary_field :: 's

record ('r, 's) http_response =
  ok :: bool
  json :: "thrown + ('r, 's) payload"

record api_request =
  req_url :: string
  req_method :: string
  req_file :: browser_file

record ('r, 's) extraction_result =
  filename :: string
  requirements :: "'r list"
  summary :: 's

text \<open>
  The component: its three \<open>useState\<close> cells the handler writes, the requests it has
  issued, and the delays of the pending \<open>setTimeout\<close> callbacks (each clears the error and
  returns to \<open>idle\<close>).
\<close>

record ('r, 's) form =
  state :: ui_state
  error :: "string option"
  result :: "('r, 's) extraction_result option"
  sent :: "api_request list"
  reset_timers :: "nat list"

definition msg_invalid_pdf :: string where
  "msg_invalid_pdf = ''Veuillez s'' @ [CHR 0xE9] @ ''lectionner un fichier PDF valide''"

definition msg_too_large :: string where
  "msg_too_large = ''Le fichier est trop volumineux (max 50MB)''"

definition msg_extraction_failed :: string where
  "msg_extraction_failed = ''Erreur lors de l'' @ [CHR 0x27] @ ''extraction''"

definition msg_no_requirements :: string where
  "msg_no_requirements = ''Aucune exigence PCI DSS trouv'' @ [CHR 0xE9] @ ''e dans le PDF''"

definition msg_extraction_failed_pdf :: string where
  "msg_extraction_failed_pdf = ''Erreur lors de l'' @ [CHR 0x27] @ ''extraction du PDF''"

text \<open>\<open>setError(msg); setState("error"); setTimeout(..., delay)\<close>, written three times in the source.\<close>

definition show_error :: "string \<Rightarrow> nat \<Rightarrow> ('r, 's) form \<Rightarrow> ('r, 's) form" where
  "show_error msg delay c =
     c\<lparr>error := Some msg, state := Error, reset_timers := reset_timers c @ [delay]\<rparr>"

definition api_url :: "bool \<Rightarrow> string" where
  "api_url development =
     (if development then ''http://localhost:8000/api/extract'' else ''/api/extract'')"

text \<open>
  The body of the \<open>try\<close> after the request is issued: \<open>Inl\<close> is what it throws, \<open>Inr\<close> the
  component after \<open>setResult\<close> and \<open>setState("success")\<close>. \<open>a || b\<close> on strings takes \<open>b\<close> when
  \<open>a\<close> is absent or empty.
\<close>

definition read_response ::
  "browser_file \<Rightarrow> thrown + ('r, 's) http_response \<Rightarrow> ('r, 's) form \<Rightarrow> thrown + ('r, 's) form" where
  "read_response file outcome c =
     (case outcome of
        Inl t \<Rightarrow> Inl t
      | Inr response \<Rightarrow>
          if \<not> ok response then
            (case json response of
               Inl t \<Rightarrow> Inl t
             | Inr errorData \<Rightarrow>
                 Inl (ErrorObject
                   (case error_field errorData of
                      None \<Rightarrow> msg_extraction_failed
                    | Some m \<Rightarrow> if m = [] then msg_extraction_failed else m)))
          else
            (case json response of
               Inl t \<Rightarrow> Inl t
             | Inr data \<Rightarrow>
                 (case requirements_field data of
                    Some (r # rs) \<Rightarrow>
                      Inr (c\<lparr>result := Some \<lparr>filename = file_name file,
                                              requirements = r # rs,
                                              summary = summary_field data\<rparr>,
                             state := Success\<rparr>)
                  | _ \<Rightarrow> Inl (ErrorObject msg_no_requirements))))"

text \<open>
  \<open>handleFiles\<close>. \<open>development\<close> is \<open>process.env.NODE_ENV === 'development'\<close>; \<open>fetch\<close> is the
  network, giving for a request either a rejection or a response. The states \<open>uploading\<close>
  and \<open>processing\<close> are set one after the other before the request leaves.
\<close>

definition handleFiles ::
  "bool \<Rightarrow> (api_request \<Rightarrow> thrown + ('r, 's) http_response) \<Rightarrow> browser_file list option
     \<Rightarrow> ('r, 's) form \<Rightarrow> ('r, 's) form" where
  "handleFiles development fetch files c =
     (case files of
        None \<Rightarrow> c
      | Some [] \<Rightarrow> c
      | Some (file # _) \<Rightarrow>
          if file_type file \<noteq> ''application/pdf'' then show_error msg_invalid_pdf 3000 c
          else if file_size file > 50 * 1024 * 1024 then show_error msg_too_large 3000 c
          else
            let request = \<lparr>req_url = api_url development, req_method = ''POST'',
                           req_file = file\<rparr>;
                c1 = c\<lparr>state := Processing, sent := sent c @ [request]\<rparr>
            in (case read_response file (fetch request) c1 of
                  Inr c2 \<Rightarrow> c2
                | Inl t \<Rightarrow>
                    show_error
                      (case t of ErrorObject m \<Rightarrow> m | OtherValue \<Rightarrow> msg_extraction_failed_pdf)
                      5000 c1))"

text \<open>The component as \<open>useState\<close> initialises it.\<close>

definition initial_form :: "('r, 's) form" where
  "initial_form = \<lparr>state = Idle, error = None, result = None, sent = [], reset_timers = []\<rparr>"


section \<open>The extractor page with language support: \<open>downloadJSON\<close> and \<open>downloadCSV\<close>\<close>

text \<open>
  An entry of \<open>extractedData\<close> as it arrives from the API. The declared type is
  \<open>{req_num: string, text: string, tests: string[], guidance: string}\<close>, but \<open>downloadCSV\<close>
  guards each property with \<open>|| ''\<close> and \<open>tests\<close> with \<open>Array.isArray\<close>, so a property may be
  missing (\<open>None\<close>, \<open>TestsAbsent\<close>) and \<open>tests\<close> may be a plain string.
\<close>

datatype tests_value = TestsArray "string list" | TestsString string | TestsAbsent

record item =
  item_req_num :: "string option"
  item_text :: "string option"
  item_tests :: tests_value
  item_guidance :: "string option"

text \<open>\<open>languageInfo\<close> is the \<open>language_detection\<close> object of the summary; only \<open>code\<close> is read here.\<close>

record language_info =
  info_code :: "string option"

record page =
  extractedData :: "item list option"
  languageInfo :: "language_info option"

text \<open>
  \<open>now.toISOString().slice(0, 19).replace(/[:.]/g, '-')\<close>, from the ISO string of the
  clock.
\<close>

definition timestamp :: "string \<Rightarrow> string" where
  "timestamp isoString = map (\<lambda>c. if c = CHR '':'' \<or> c = CHR ''.'' then CHR ''-'' else c) (take 19 isoString)"

text \<open>
  \<open>languageInfo?.code ? `_${languageInfo.code}` : ''\<close>: a missing object, a missing code and
  the empty string are all falsy.
\<close>

definition languageSuffix :: "language_info option \<Rightarrow> string" where
  "languageSuffix info =
     (case info of
        None \<Rightarrow> []
      | Some li \<Rightarrow>
          (case info_code li of
             None \<Rightarrow> []
           | Some c \<Rightarrow> if c = [] then [] else ''_'' @ c))"

text \<open>
  \<open>downloadJSON\<close>: the name given to \<open>a.download\<close>, or \<open>None\<close> when there is no data and the
  function returns at once. (The blob is \<open>JSON.stringify\<close> of the data, not modelled.)
\<close>

definition downloadJSON :: "page \<Rightarrow> string \<Rightarrow> string option" where
  "downloadJSON p isoString =
     (case extractedData p of
        None \<Rightarrow> None
      | Some _ \<Rightarrow>
          Some (''pci_requirements'' @ languageSuffix (languageInfo p) @ ''_'' @ timestamp isoString
                @ ''.json''))"

text \<open>\<open>x || ''\<close> on a string that may be missing.\<close>

definition or_empty :: "string option \<Rightarrow> string" where
  "or_empty x = (case x of None \<Rightarrow> [] | Some s \<Rightarrow> s)"

text \<open>\<open>`"${s.replace(/"/g, '""')}"`\<close>\<close>

definition csv_cell :: "string \<Rightarrow> string" where
  "csv_cell s = [CHR 0x22] @ replace_all (CHR 0x22) [CHR 0x22, CHR 0x22] s @ [CHR 0x22]"

definition tests_text :: "tests_value \<Rightarrow> string" where
  "tests_text t =
     (case t of
        TestsArray ts \<Rightarrow> js_join ''; '' ts
      | TestsString s \<Rightarrow> s
      | TestsAbsent \<Rightarrow> [])"

definition csv_headers :: "string list" where
  "csv_headers = [''reqid'', ''pci_requirement_fr'', ''tp'', ''guidance'']"

definition csvContent :: "item list \<Rightarrow> string" where
  "csvContent items =
     js_join [CHR 0x0A]
       (js_join '','' csv_headers #
        map (\<lambda>item. js_join '',''
               [csv_cell (or_empty (item_req_num item)),
                csv_cell (or_empty (item_text item)),
                csv_cell (tests_text (item_tests item)),
                csv_cell (or_empty (item_guidance item))])
            items)"

record download =
  download_name :: string
  blob_type :: string
  blob_text :: string

definition downloadCSV :: "page \<Rightarrow> string \<Rightarrow> download option" where
  "downloadCSV p isoString =
     (case extractedData p of
        None \<Rightarrow> None
      | Some items \<Rightarrow>
          Some \<lparr>download_name =
                  ''pci_requirements'' @ languageSuffix (languageInfo p) @ ''_'' @ timestamp isoString
                  @ ''.csv'',
                blob_type = ''text/csv;charset=utf-8;'',
                blob_text = csvContent items\<rparr>)"

text \<open>
  The reading of "every field is wrapped in double quotes with embedded double quotes
  doubled", written on its own for comparison with \<open>csv_cell\<close>.
\<close>

primrec doubled_quotes :: "string \<Rightarrow> string" where
  "doubled_quotes [] = []"
| "doubled_quotes (c # cs) = (if c = CHR 0x22 then [c, c] else [c]) @ doubled_quotes cs"

definition quoted_field :: "string \<Rightarrow> string" where
  "quoted_field s = CHR 0x22 # doubled_quotes s @ [CHR 0x22]"

text \<open>
  The inverse a CSV reader applies inside a quoted field: a doubled quote is one quote, a
  lone quote is not allowed.
\<close>

fun undoubled :: "string \<Rightarrow> string option" where
  "undoubled [] = Some []"
| "undoubled [c] = (if c = CHR 0x22 then None else Some [c])"
| "undoubled (c # d # cs) =
     (if c = CHR 0x22 then (if d = CHR 0x22 then map_option (Cons c) (undoubled cs) else None)
      else map_option (Cons c) (undoubled (d # cs)))"


section \<open>The Python core: language detector, extractor and orchestrator\<close>

text \<open>
  The detector (\<open>api/language_detector.py\<close>), the extractors (\<open>api/extractors.py\<close>,
  \<open>testv5.py\<close>) and the Flask orchestration (\<open>api/extract.py\<close>) are not among the sources at
  hand; only their documentation and their callers are. The definitions of this section
  follow sections 3, 4 and 6 of the specification and the keyword lists of the language
  detection notes.
\<close>

text \<open>
  Modelled from the spec: the French lexicon of the missing \<open>PCILanguageDetector\<close>, as the
  language detection notes list it.
\<close>

definition french_keywords :: "string list" where
  "french_keywords =
     [''exigences'', ''conseils'', ''examiner'', ''observer'', ''interroger'',
      ''v'' @ [CHR 0xE9] @ ''rifier'', ''inspecter'', ''applicabilit'' @ [CHR 0xE9],
      ''en place'', ''pas en place'', ''non applicable'', ''non test'' @ [CHR 0xE9],
      ''notes d'' @ [CHR 0x27] @ ''applicabilit'' @ [CHR 0xE9]]"

text \<open>
  Modelled from the spec: the English lexicon of the missing \<open>PCILanguageDetector\<close>, as the
  language detection notes list it.
\<close>

definition english_keywords :: "string list" where
  "english_keywords =
     [''requirements'', ''guidance'', ''examine'', ''observe'', ''interview'',
      ''verify'', ''inspect'', ''applicability'', ''in place'', ''not in place'',
      ''not applicable'', ''not tested'', ''applicability notes'']"

text \<open>
  Modelled from the spec: the case folding behind the detector's "case-insensitive"
  count; capitals of ASCII and of Latin-1 go to their small letters.
\<close>

definition lower_char :: "char \<Rightarrow> char" where
  "lower_char c =
     (let n = (of_char c :: nat) in
        if (65 \<le> n \<and> n \<le> 90) \<or> (192 \<le> n \<and> n \<le> 222 \<and> n \<noteq> 215) then char_of (n + 32)
        else c)"

text \<open>
  Modelled from the spec: "count occurrences of every keyword within text", by substring
  matching: the number of positions of the text at which the keyword starts.
\<close>

primrec occurrences :: "string \<Rightarrow> string \<Rightarrow> nat" where
  "occurrences k [] = (if k = [] then 1 else 0)"
| "occurrences k (c # cs) = (if prefix k (c # cs) then 1 else 0) + occurrences k cs"

text \<open>Modelled from the spec: the raw hit count of one language's lexicon (section 4.1).\<close>

definition hits :: "string list \<Rightarrow> string \<Rightarrow> nat" where
  "hits keywords text = sum_list (map (\<lambda>k. occurrences k (map lower_char text)) keywords)"

text \<open>
  Modelled from the spec: the \<open>LanguageDetectionResult\<close> of section 3, without its display
  names and extractor label, whose English values the documents do not give.
\<close>

record detection =
  code :: string
  confidence :: real

text \<open>
  Modelled from the spec: \<open>detect\<close> of the missing \<open>PCILanguageDetector\<close> (section 4.1). The
  language with more hits wins, a tie goes to French; the confidence is the winner's
  share of all hits, and 0 when there is none.
\<close>

definition detect :: "string \<Rightarrow> detection" where
  "detect text =
     (let fr = hits french_keywords text;
          en = hits english_keywords text;
          c = (if fr < en then ''en'' else ''fr'');
          winning = (if fr < en then en else fr)
      in \<lparr>code = c,
          confidence = (if fr + en = 0 then 0 else real winning / real (fr + en))\<rparr>)"

text \<open>
  Modelled from the spec: the \<open>Requirement\<close> record of sections 3 and 6 (the optional
  applicability notes, which the algorithm of section 4.3 never fills, are left out).
\<close>

record requirement =
  req_num :: string
  req_text :: string
  tests :: "string list"
  guidance :: string

text \<open>
  Modelled from the spec: the segmentation grammar of one language (section 4.2), the
  patterns of the missing extractor classes: the requirement-start marker gives the
  leading identifier and the remainder of the segment, the two others say whether a
  segment carries the marker.
\<close>

record grammar =
  requirement_start :: "string \<Rightarrow> (string \<times> string) option"
  test_marker :: "string \<Rightarrow> bool"
  guidance_marker :: "string \<Rightarrow> bool"

text \<open>Modelled from the spec: step 1 of section 4.3, the text split into its lines.\<close>

primrec segments :: "string \<Rightarrow> string list" where
  "segments [] = [[]]"
| "segments (c # cs) =
     (if c = CHR 0x0A then [] # segments cs
      else (case segments cs of [] \<Rightarrow> [[c]] | l # ls \<Rightarrow> (c # l) # ls))"

text \<open>Modelled from the spec: white space, for "trimmed" and "whitespace-collapsed".\<close>

definition is_space :: "char \<Rightarrow> bool" where
  "is_space c = (c = CHR '' '' \<or> c = CHR 0x09 \<or> c = CHR 0x0A \<or> c = CHR 0x0D)"

text \<open>Modelled from the spec: "trimmed" (section 4.3, step 3).\<close>

definition trim :: "string \<Rightarrow> string" where
  "trim s = rev (dropWhile is_space (rev (dropWhile is_space s)))"

text \<open>
  Modelled from the spec: "appended, joined with a single space, collapsing hyphenation
  line-breaks" (section 4.3, step 3).
\<close>

definition join_line :: "string \<Rightarrow> string \<Rightarrow> string" where
  "join_line acc seg =
     (let t = trim seg in
        if t = [] then acc
        else if acc = [] then t
        else if last acc = CHR ''-'' then butlast acc @ t
        else acc @ '' '' @ t)"

text \<open>
  Modelled from the spec: the state of the scan of section 4.3: the single "current
  requirement" accumulator, whether it is in guidance mode, whether the segment before was
  a test marker, and the requirements emitted so far.
\<close>

record scanner =
  current :: "requirement option"
  in_guidance :: bool
  after_test :: bool
  emitted :: "requirement list"

text \<open>
  Modelled from the spec: closing the accumulator (section 4.3, steps 2 and 4): it is
  emitted if it has a non-empty \<open>req_num\<close>.
\<close>

definition close_current :: "scanner \<Rightarrow> requirement list" where
  "close_current s =
     (case current s of
        None \<Rightarrow> emitted s
      | Some r \<Rightarrow> if req_num r = [] then emitted s else emitted s @ [r])"

text \<open>
  Modelled from the spec: one segment of the scan (section 4.3, steps 2, 3 and 5). A
  requirement-start marker closes the accumulator and opens a new one; before the first
  one, text is discarded; a test marker appends a trimmed, non-empty entry to \<open>tests\<close>; a
  guidance marker switches to guidance mode; any other segment goes to \<open>guidance\<close> in
  guidance mode, nowhere right after a test marker, and to \<open>text\<close> otherwise.
\<close>

definition scan_segment :: "grammar \<Rightarrow> scanner \<Rightarrow> string \<Rightarrow> scanner" where
  "scan_segment g s seg =
     (case requirement_start g seg of
        Some (ident, rest) \<Rightarrow>
          \<lparr>current = Some \<lparr>req_num = ident, req_text = trim rest, tests = [], guidance = []\<rparr>,
           in_guidance = False, after_test = False, emitted = close_current s\<rparr>
      | None \<Rightarrow>
          (case current s of
             None \<Rightarrow> s
           | Some r \<Rightarrow>
               if test_marker g seg then
                 s\<lparr>current := Some (if trim seg = [] then r
                                     else r\<lparr>tests := tests r @ [trim seg]\<rparr>),
                   in_guidance := False, after_test := True\<rparr>
               else if guidance_marker g seg then
                 s\<lparr>in_guidance := True, after_test := False\<rparr>
               else if in_guidance s then
                 s\<lparr>current := Some (r\<lparr>guidance := join_line (guidance r) seg\<rparr>),
                   after_test := False\<rparr>
               else if after_test s then s\<lparr>after_test := False\<rparr>
               else s\<lparr>current := Some (r\<lparr>req_text := join_line (req_text r) seg\<rparr>)\<rparr>))"

text \<open>
  Modelled from the spec: \<open>extract\<close> of the missing extractor classes (section 4.3): the
  segments are scanned in order from an empty scanner, and the last accumulator is closed
  at the end of the input. (The name \<open>extract\<close> is a keyword of Isabelle, hence the longer
  one.)
\<close>

definition extract_requirements :: "grammar \<Rightarrow> string \<Rightarrow> requirement list" where
  "extract_requirements g text =
     close_current
       (foldl (scan_segment g)
          \<lparr>current = None, in_guidance = False, after_test = False, emitted = []\<rparr>
          (segments text))"

text \<open>
  Modelled from the spec: the \<open>ExtractionSummary\<close> of section 3, counted from the
  requirement sequence.
\<close>

record extraction_summary =
  total :: nat
  with_tests :: nat
  with_guidance :: nat
  total_tests :: nat

text \<open>Modelled from the spec: the single pass that computes the summary (section 4.4).\<close>

definition summarize :: "requirement list \<Rightarrow> extraction_summary" where
  "summarize rs =
     \<lparr>total = length rs,
      with_tests = length (filter (\<lambda>r. tests r \<noteq> []) rs),
      with_guidance = length (filter (\<lambda>r. guidance r \<noteq> []) rs),
      total_tests = sum_list (map (\<lambda>r. length (tests r)) rs)\<rparr>"

text \<open>Modelled from the spec: the result of the orchestrator's \<open>run\<close> (section 4.4).\<close>

record extraction =
  extraction_requirements :: "requirement list"
  language_detection :: detection
  extraction_summary :: extraction_summary

text \<open>
  Modelled from the spec: \<open>run\<close> of the missing orchestrator (section 4.4), given the two
  grammars: it detects the language, takes the extractor of the detected code (the
  French one unless the code is \<open>en\<close>), runs it once and summarises.
\<close>

definition run :: "grammar \<Rightarrow> grammar \<Rightarrow> string \<Rightarrow> extraction" where
  "run french english text =
     (let d = detect text;
          g = (if code d = ''en'' then english else french);
          rs = extract_requirements g text
      in \<lparr>extraction_requirements = rs, language_detection = d,
          extraction_summary = summarize rs\<rparr>)"

text \<open>
  Modelled from the spec: an English grammar after the layout convention of section 4.2
  ("a line beginning with a dotted numeric identifier followed by whitespace starts a new
  requirement") and the glossary's test verbs and guidance keyword.
\<close>

definition dotted_identifier :: "string \<Rightarrow> (string \<times> string) option" where
  "dotted_identifier seg =
     (let ident = takeWhile (\<lambda>c. c = CHR ''.'' \<or> (48 \<le> (of_char c :: nat) \<and> (of_char c :: nat) \<le> 57)) seg;
          rest = drop (length ident) seg
      in if ident \<noteq> [] \<and> hd ident \<noteq> CHR ''.'' \<and> rest \<noteq> [] \<and> is_space (hd rest)
         then Some (ident, rest) else None)"

text \<open>Modelled from the spec: the English grammar built from these markers.\<close>

definition english_grammar :: grammar where
  "english_grammar =
     \<lparr>requirement_start = dotted_identifier,
      test_marker = (\<lambda>seg. \<exists>v \<in> set [''examine'', ''observe'', ''interview'', ''inspect'', ''verify''].
                        prefix v (map lower_char (trim seg))),
      guidance_marker = (\<lambda>seg. prefix ''guidance'' (map lower_char (trim seg)))\<rparr>"


section \<open>Properties of the convert-pdf endpoint\<close>

text \<open>
  C10. A POST whose form data has no \<open>pdf\<close> entry, or whose \<open>pdf\<close> entry is a file of a
  MIME type other than \<open>application/pdf\<close> (or is not a file at all), is answered with
  status 400 and an error body, and the server is left as it was: no directory, no file
  and no clean-up timer is created, since both checks come before the first write.
\<close>

theorem POST_rejects_before_writing:
  assumes "form_get fd ''pdf'' = None
           \<or> (\<exists>v. form_get fd ''pdf'' = Some (TextEntry v))
           \<or> (\<exists>f. form_get fd ''pdf'' = Some (FileEntry f)
                  \<and> posted_type f \<noteq> ''application/pdf'')"
  shows "status (fst (POST s (Some fd))) = 400
         \<and> (\<exists>m. body (fst (POST s (Some fd))) = ErrorBody m)
         \<and> snd (POST s (Some fd)) = s"
  using assms
  by (auto simp: POST_def no_file_response_def not_pdf_response_def json_response_def)

theorem POST_rejects_before_writing_witness:
  "status (fst (POST \<lparr>cwd = ''/app'', dirs = [], stored = [], clock = 1700, timers = [],
                     fault = NoFault\<rparr>
             (Some [(''pdf'', FileEntry \<lparr>posted_name = ''a.txt'', posted_type = ''text/plain'',
                                      posted_bytes = [1, 2]\<rparr>)]))) = 400
   \<and> stored (snd (POST \<lparr>cwd = ''/app'', dirs = [], stored = [], clock = 1700, timers = [],
                      fault = NoFault\<rparr>
             (Some [(''pdf'', FileEntry \<lparr>posted_name = ''a.txt'', posted_type = ''text/plain'',
                                      posted_bytes = [1, 2]\<rparr>)]))) = []"
  using POST_rejects_before_writing
    [of "[(''pdf'', FileEntry \<lparr>posted_name = ''a.txt'', posted_type = ''text/plain'',
                              posted_bytes = [1, 2]\<rparr>)]"
        "\<lparr>cwd = ''/app'', dirs = [], stored = [], clock = 1700, timers = [], fault = NoFault\<rparr>"]
  by (simp add: form_get_def)





section \<open>Properties of the upload form\<close>

text \<open>
  C8. When the first file of the list is not of type \<open>application/pdf\<close>, or is larger than
  \<open>50 * 1024 * 1024\<close> bytes, \<open>handleFiles\<close> ends in the error state with a message, has
  issued no request, and has left the stored result as it was (null on a fresh form, as
  the witness shows).
\<close>

theorem handleFiles_rejects_invalid_file:
  assumes "files = Some (file # others)"
    and "file_type file \<noteq> ''application/pdf'' \<or> file_size file > 50 * 1024 * 1024"
  shows "state (handleFiles development fetch files c) = Error
         \<and> error (handleFiles development fetch files c) \<noteq> None
         \<and> sent (handleFiles development fetch files c) = sent c
         \<and> result (handleFiles development fetch files c) = result c"
  using assms by (auto simp: handleFiles_def show_error_def)

theorem handleFiles_rejects_invalid_file_witness:
  "state (handleFiles False (\<lambda>r. Inl OtherValue)
            (Some [\<lparr>file_name = ''big.pdf'', file_type = ''application/pdf'',
                    file_size = 52428801\<rparr>])
            (initial_form :: (unit, unit) form)) = Error
   \<and> sent (handleFiles False (\<lambda>r. Inl OtherValue)
            (Some [\<lparr>file_name = ''big.pdf'', file_type = ''application/pdf'',
                    file_size = 52428801\<rparr>])
            (initial_form :: (unit, unit) form)) = []
   \<and> result (handleFiles False (\<lambda>r. Inl OtherValue)
            (Some [\<lparr>file_name = ''big.pdf'', file_type = ''application/pdf'',
                    file_size = 52428801\<rparr>])
            (initial_form :: (unit, unit) form)) = None"
  using handleFiles_rejects_invalid_file
    [of "Some [\<lparr>file_name = ''big.pdf'', file_type = ''application/pdf'',
                file_size = 52428801\<rparr>]"
        "\<lparr>file_name = ''big.pdf'', file_type = ''application/pdf'', file_size = 52428801\<rparr>"
        "[]" False "\<lambda>r. Inl OtherValue" "initial_form :: (unit, unit) form"]
  by (simp add: initial_form_def)





section \<open>Properties of the downloads\<close>

lemma js_join_Cons: "js_join sep (x # xs) = x @ concat (map (\<lambda>y. sep @ y) xs)"
  by (induction xs arbitrary: x) simp_all

lemma replace_all_doubled_quotes:
  "replace_all (CHR 0x22) [CHR 0x22, CHR 0x22] s = doubled_quotes s"
  by (induction s) (simp_all add: replace_all_def)

lemma csv_cell_quoted_field: "csv_cell s = quoted_field s"
  by (simp add: csv_cell_def quoted_field_def replace_all_doubled_quotes)

lemma undoubled_plain_char:
  "c \<noteq> CHR 0x22 \<Longrightarrow> undoubled (c # cs) = map_option (Cons c) (undoubled cs)"
  by (cases cs) simp_all

lemma undoubled_doubled_quotes: "undoubled (doubled_quotes s) = Some s"
  by (induction s) (simp_all add: undoubled_plain_char)

text \<open>
  C2. Once data has been extracted, both downloads are named \<open>pci_requirements_\<close>, the
  language code, \<open>_\<close>, the timestamp and the extension when \<open>languageInfo.code\<close> is a
  (non-empty) code, and \<open>pci_requirements_\<close>, the timestamp and the extension when there is
  no language object or it has no code (or has the empty string for one, which the
  truthiness test of the source takes for absent).
\<close>

theorem download_names_embed_language_code:
  assumes "extractedData p = Some items"
  shows "(\<forall>li c. languageInfo p = Some li \<and> info_code li = Some c \<and> c \<noteq> [] \<longrightarrow>
            downloadJSON p isoString
              = Some (''pci_requirements_'' @ c @ ''_'' @ timestamp isoString @ ''.json'')
            \<and> map_option download_name (downloadCSV p isoString)
              = Some (''pci_requirements_'' @ c @ ''_'' @ timestamp isoString @ ''.csv''))
         \<and> (languageInfo p = None
              \<or> (\<exists>li. languageInfo p = Some li \<and> info_code li \<in> {None, Some []}) \<longrightarrow>
            downloadJSON p isoString = Some (''pci_requirements_'' @ timestamp isoString @ ''.json'')
            \<and> map_option download_name (downloadCSV p isoString)
              = Some (''pci_requirements_'' @ timestamp isoString @ ''.csv''))"
  using assms by (auto simp: downloadJSON_def downloadCSV_def languageSuffix_def)

theorem download_names_embed_language_code_witness:
  "downloadJSON
     \<lparr>extractedData = Some [\<lparr>item_req_num = Some ''1.1'', item_text = Some ''Install'',
                              item_tests = TestsArray [], item_guidance = Some []\<rparr>],
      languageInfo = Some \<lparr>info_code = Some ''fr''\<rparr>\<rparr>
     ''2024-01-15T10:30:45.123Z''
   = Some ''pci_requirements_fr_2024-01-15T10-30-45.json''
   \<and> downloadJSON
     \<lparr>extractedData = Some [\<lparr>item_req_num = Some ''1.1'', item_text = Some ''Install'',
                              item_tests = TestsArray [], item_guidance = Some []\<rparr>],
      languageInfo = None\<rparr>
     ''2024-01-15T10:30:45.123Z''
   = Some ''pci_requirements_2024-01-15T10-30-45.json''"
  using download_names_embed_language_code
    [of "\<lparr>extractedData = Some [\<lparr>item_req_num = Some ''1.1'', item_text = Some ''Install'',
                              item_tests = TestsArray [], item_guidance = Some []\<rparr>],
          languageInfo = Some \<lparr>info_code = Some ''fr''\<rparr>\<rparr>"
        "[\<lparr>item_req_num = Some ''1.1'', item_text = Some ''Install'',
           item_tests = TestsArray [], item_guidance = Some []\<rparr>]"
        "''2024-01-15T10:30:45.123Z''"]
    download_names_embed_language_code
    [of "\<lparr>extractedData = Some [\<lparr>item_req_num = Some ''1.1'', item_text = Some ''Install'',
                              item_tests = TestsArray [], item_guidance = Some []\<rparr>],
          languageInfo = None\<rparr>"
        "[\<lparr>item_req_num = Some ''1.1'', item_text = Some ''Install'',
           item_tests = TestsArray [], item_guidance = Some []\<rparr>]"
        "''2024-01-15T10:30:45.123Z''"]
  by (simp add: timestamp_def)

text \<open>
  C9. For every list of extracted requirements, the CSV text is the header line
  \<open>reqid,pci_requirement_fr,tp,guidance\<close> followed, for each requirement in order, by a
  line feed and one row of four comma-separated fields: the identifier, the text, the
  tests joined with \<open>"; "\<close>, and the guidance, each wrapped in double quotes with the
  double quotes inside it doubled (so that un-doubling gives the field back).
\<close>

theorem downloadCSV_content:
  "map_option blob_text (downloadCSV \<lparr>extractedData = Some items, languageInfo = info\<rparr> isoString)
     = Some (''reqid,pci_requirement_fr,tp,guidance'' @
         concat (map (\<lambda>r. [CHR 0x0A]
                     @ quoted_field (or_empty (item_req_num r)) @ '',''
                     @ quoted_field (or_empty (item_text r)) @ '',''
                     @ quoted_field
                         (case item_tests r of
                            TestsArray ts \<Rightarrow> js_join ''; '' ts
                          | TestsString s \<Rightarrow> s
                          | TestsAbsent \<Rightarrow> []) @ '',''
                     @ quoted_field (or_empty (item_guidance r)))
                 items))
   \<and> undoubled (doubled_quotes s) = Some s"
  by (simp add: downloadCSV_def csvContent_def js_join_Cons csv_headers_def
      csv_cell_quoted_field tests_text_def undoubled_doubled_quotes comp_def)

theorem downloadCSV_content_witness:
  "map_option blob_text
     (downloadCSV
        \<lparr>extractedData =
           Some [\<lparr>item_req_num = Some ''1.1'', item_text = Some [CHR ''a'', CHR 0x22, CHR ''b''],
                  item_tests = TestsArray [''t1'', ''t2''], item_guidance = None\<rparr>],
         languageInfo = None\<rparr>
        ''2024-01-15T10:30:45.123Z'')
   = Some (''reqid,pci_requirement_fr,tp,guidance'' @ [CHR 0x0A]
           @ [CHR 0x22] @ ''1.1'' @ [CHR 0x22] @ '',''
           @ [CHR 0x22, CHR ''a'', CHR 0x22, CHR 0x22, CHR ''b'', CHR 0x22] @ '',''
           @ [CHR 0x22] @ ''t1; t2'' @ [CHR 0x22] @ '',''
           @ [CHR 0x22, CHR 0x22])"
  using downloadCSV_content
    [of "[\<lparr>item_req_num = Some ''1.1'', item_text = Some [CHR ''a'', CHR 0x22, CHR ''b''],
            item_tests = TestsArray [''t1'', ''t2''], item_guidance = None\<rparr>]"
        None "''2024-01-15T10:30:45.123Z''" "[]"]
  by (simp add: quoted_field_def or_empty_def)


section \<open>Properties of the core\<close>

lemma occurrences_zero_iff: "occurrences k t = 0 \<longleftrightarrow> \<not> sublist k t"
  by (induction t) (simp_all add: sublist_Cons_right)

lemma hits_zero:
  assumes "\<forall>k \<in> set keywords. \<not> sublist k (map lower_char text)"
  shows "hits keywords text = 0"
  using assms by (simp add: hits_def occurrences_zero_iff)

text \<open>
  C4. When no keyword of the French or of the English lexicon occurs in the text (case
  folded), \<open>detect\<close> gives code \<open>fr\<close> with confidence 0, and the orchestrator goes on with
  the French extractor: its requirements are those the French grammar extracts.
\<close>

theorem detect_no_keywords_french_fallback:
  assumes "\<forall>k \<in> set (french_keywords @ english_keywords). \<not> sublist k (map lower_char text)"
  shows "code (detect text) = ''fr''
         \<and> confidence (detect text) = 0
         \<and> extraction_requirements (run french english text)
             = extract_requirements french text"
proof -
  have fr: "hits french_keywords text = 0"
    using assms by (intro hits_zero) simp
  have en: "hits english_keywords text = 0"
    using assms by (intro hits_zero) simp
  have d: "detect text = \<lparr>code = ''fr'', confidence = 0\<rparr>"
    by (simp add: detect_def fr en)
  show ?thesis
    by (simp add: run_def d Let_def)
qed

theorem detect_no_keywords_french_fallback_witness:
  "code (detect ''Hello World'') = ''fr'' \<and> confidence (detect ''Hello World'') = 0"
proof -
  have h: "\<forall>k \<in> set (french_keywords @ english_keywords).
             \<not> sublist k (map lower_char ''Hello World'')"
    by (simp add: french_keywords_def english_keywords_def lower_char_def
        occurrences_zero_iff [symmetric])
  from detect_no_keywords_french_fallback [OF h] show ?thesis
    by simp
qed

lemma segments_not_Nil: "segments t \<noteq> []"
  by (induction t) (simp_all split: list.splits)

lemma js_join_segments: "js_join [CHR 0x0A] (segments t) = t"
proof (induction t)
  case Nil
  show ?case by simp
next
  case (Cons c cs)
  obtain l ls where s: "segments cs = l # ls"
    using segments_not_Nil [of cs] by (cases "segments cs") auto
  from Cons.IH show ?case
    by (simp add: s js_join_Cons)
qed

lemma close_current_initial:
  "close_current \<lparr>current = None, in_guidance = b1, after_test = b2, emitted = []\<rparr> = []"
  by (simp add: close_current_def)

text \<open>
  Whatever the segment, closing after it emits what closing before it would have emitted,
  followed by the identifier of the segment's requirement-start marker if it has one.
\<close>

lemma scan_segment_emitted_req_nums:
  "map req_num (close_current (scan_segment g s seg)) =
     map req_num (close_current s) @
       (case requirement_start g seg of None \<Rightarrow> []
        | Some (ident, rest) \<Rightarrow> if ident = [] then [] else [ident])"
  by (auto simp: scan_segment_def close_current_def split: option.splits)

lemma foldl_scan_req_nums:
  "map req_num (close_current (foldl (scan_segment g) s segs)) =
     map req_num (close_current s) @
       filter (\<lambda>n. n \<noteq> []) (map fst (List.map_filter (requirement_start g) segs))"
proof (induction segs arbitrary: s)
  case Nil
  then show ?case by simp
next
  case (Cons seg segs)
  show ?case
    by (simp add: Cons.IH scan_segment_emitted_req_nums split: option.splits)
qed

text \<open>
  C5. The identifiers of the extracted requirements, in output order, are the
  identifiers that the requirement-start markers capture, in the order of their segments
  in the text (the segments joined by line feeds are the text again); an identifier that
  occurs twice is there twice. Only a marker whose identifier is empty gives no record.
\<close>

theorem extract_requirements_marker_order:
  "map req_num (extract_requirements g text)
     = filter (\<lambda>n. n \<noteq> []) (map fst (List.map_filter (requirement_start g) (segments text)))
   \<and> js_join [CHR 0x0A] (segments text) = text"
  by (simp add: extract_requirements_def foldl_scan_req_nums close_current_initial
      js_join_segments)

theorem extract_requirements_marker_order_witness:
  "map req_num
     (extract_requirements english_grammar
        (''Contents'' @ [CHR 0x0A] @ ''1.1 Install'' @ [CHR 0x0A] @ ''Examine the policy''
         @ [CHR 0x0A] @ ''1.1 Again'' @ [CHR 0x0A] @ ''Guidance'' @ [CHR 0x0A] @ ''Ensure it''
         @ [CHR 0x0A] @ ''2.3 Third''))
   = [''1.1'', ''1.1'', ''2.3'']"
proof -
  have e: "filter (\<lambda>n. n \<noteq> [])
             (map fst (List.map_filter (requirement_start english_grammar)
                (segments
                   (''Contents'' @ [CHR 0x0A] @ ''1.1 Install'' @ [CHR 0x0A]
                    @ ''Examine the policy'' @ [CHR 0x0A] @ ''1.1 Again'' @ [CHR 0x0A]
                    @ ''Guidance'' @ [CHR 0x0A] @ ''Ensure it'' @ [CHR 0x0A] @ ''2.3 Third''))))
           = [''1.1'', ''1.1'', ''2.3'']"
    by code_simp
  from extract_requirements_marker_order
    [of english_grammar
        "''Contents'' @ [CHR 0x0A] @ ''1.1 Install'' @ [CHR 0x0A] @ ''Examine the policy''
         @ [CHR 0x0A] @ ''1.1 Again'' @ [CHR 0x0A] @ ''Guidance'' @ [CHR 0x0A] @ ''Ensure it''
         @ [CHR 0x0A] @ ''2.3 Third''"]
  show ?thesis
    unfolding e by simp
qed


end
